theory Spec2Isabelle
  imports Complex_Main
begin

section \<open>Progress records and the checkout progress parser\<close>

text \<open>
  \<^verbatim>\<open>src/command/checkout.ts\<close> imports \<^verbatim>\<open>ICheckoutProgress\<close>,
  \<^verbatim>\<open>CheckoutProgressParser\<close> and \<^verbatim>\<open>progressProcessCallback\<close> from
  \<^verbatim>\<open>../progress\<close>, and \<^verbatim>\<open>git\<close> from \<^verbatim>\<open>../core/git\<close>. The code
  of these two modules is not available here, so the parser of this section follows the
  specification (sections 3, 4.1 and 7), and each definition that does says so.
\<close>

text \<open>
  Modelled from the spec: the type of the records the parser hands to the adapter
  (section 3, ProgressRecord): either a progress record with a text and a percent, or
  the variant for input that did not match. \<^verbatim>\<open>checkoutBranch\<close> reads them as
  \<^verbatim>\<open>progress.kind === 'progress'\<close>, \<^verbatim>\<open>progress.details.text\<close> and
  \<^verbatim>\<open>progress.percent\<close>. The percent is a float in the code; it is a real number here.
\<close>

datatype ProgressRecord = Progress string real | Unknown

fun isProgress :: "ProgressRecord \<Rightarrow> bool" where
  "isProgress (Progress t p) = True"
| "isProgress Unknown = False"

text \<open>
  Modelled from the spec: the pattern of a progress line (section 4.1), "a phase label
  followed by a count and a total, e.g. Checking out files: 42% (420/1000)", with the
  percent "computed from the current/total pair when present, or taken directly from an
  explicit percent token if present". A line matches when it has a non-empty label up to
  its first colon, then optional blanks, then a percent token (digits and a percent
  sign), a parenthesised pair of fields separated by a slash, or both. Anything after
  that is ignored.
\<close>

definition isDigit :: "char \<Rightarrow> bool" where
  "isDigit c = (c \<in> set ''0123456789'')"

definition isBlank :: "char \<Rightarrow> bool" where
  "isBlank c = (c = CHR '' '')"

definition digitVal :: "char \<Rightarrow> nat" where
  "digitVal c = of_char c - 48"

text \<open>
  Modelled from the spec: a numeric field. A field that is empty or holds anything but
  decimal digits is not numeric (section 7, MalformedNumeric).
\<close>

definition readNat :: "string \<Rightarrow> nat option" where
  "readNat s =
     (if s \<noteq> [] \<and> list_all isDigit s
      then Some (foldl (\<lambda>n c. 10 * n + digitVal c) 0 s)
      else None)"

record ProgressMatch =
  label :: string
  percentToken :: "string option"
  pair :: "(string \<times> string) option"

definition matchPercentToken :: "string \<Rightarrow> string option \<times> string" where
  "matchPercentToken s =
     (let digits = takeWhile isDigit s; r = dropWhile isDigit s
      in if digits \<noteq> [] \<and> r \<noteq> [] \<and> hd r = CHR ''%''
         then (Some digits, dropWhile isBlank (tl r))
         else (None, s))"

definition matchPair :: "string \<Rightarrow> (string \<times> string) option" where
  "matchPair s =
     (if s \<noteq> [] \<and> hd s = CHR ''(''
      then (let body = tl s;
                cnt = takeWhile (\<lambda>c. c \<noteq> CHR ''/'') body;
                r = dropWhile (\<lambda>c. c \<noteq> CHR ''/'') body
            in if r = [] then None
               else (let tot = takeWhile (\<lambda>c. c \<noteq> CHR '')'') (tl r);
                         r' = dropWhile (\<lambda>c. c \<noteq> CHR '')'') (tl r)
                     in if r' = [] then None else Some (cnt, tot)))
      else None)"

definition matchLine :: "string \<Rightarrow> ProgressMatch option" where
  "matchLine l =
     (let lbl = takeWhile (\<lambda>c. c \<noteq> CHR '':'') l;
          r = dropWhile (\<lambda>c. c \<noteq> CHR '':'') l
      in if lbl = [] \<or> r = [] then None
         else (case matchPercentToken (dropWhile isBlank (tl r)) of
                 (tok, r') \<Rightarrow>
                   (let pr = matchPair r'
                    in if tok = None \<and> pr = None then None
                       else Some \<lparr>label = lbl, percentToken = tok, pair = pr\<rparr>)))"

text \<open>
  Modelled from the spec: the percent of a matched line. The pair wins over the percent
  token. A zero total and a field that is not numeric give 0 (sections 4.1 and 7: "treat
  as 0% progress, do not throw"); the zero total is a branch of its own, so that nothing
  rests on what division by zero means in HOL. The specification gives the computation
  and no clamp, so a count above the total gives a percent above 1; a record with such a
  percent is not one of the data model and the parser does not emit it (see \<open>feed\<close>).
\<close>

definition percentOf :: "ProgressMatch \<Rightarrow> real" where
  "percentOf m =
     (case pair m of
        Some (cnt, tot) \<Rightarrow>
          (case (readNat cnt, readNat tot) of
             (Some c, Some t) \<Rightarrow> (if t = 0 then 0 else real c / real t)
           | _ \<Rightarrow> 0)
      | None \<Rightarrow>
          (case percentToken m of
             Some digits \<Rightarrow> (case readNat digits of Some p \<Rightarrow> real p / 100 | None \<Rightarrow> 0)
           | None \<Rightarrow> 0))"

text \<open>
  Modelled from the spec: one line to one record, "constructed fresh per parsed line"
  (section 3). The text of a progress record is the line.
\<close>

definition parseLine :: "string \<Rightarrow> ProgressRecord" where
  "parseLine l = (case matchLine l of None \<Rightarrow> Unknown | Some m \<Rightarrow> Progress l (percentOf m))"

text \<open>
  A progress line as the tool writes it, for stating what the parser makes of one: the
  label, a colon, blanks, the percent token, blanks, and the pair in parentheses,
  followed by anything.
\<close>

definition progressLine :: "string \<Rightarrow> nat \<Rightarrow> string \<Rightarrow> nat \<Rightarrow> string \<Rightarrow> string \<Rightarrow> string \<Rightarrow> string" where
  "progressLine lbl k ds j cnt tot rest =
     lbl @ CHR '':'' # replicate k (CHR '' '') @ ds @ CHR ''%'' # replicate j (CHR '' '')
       @ CHR ''('' # cnt @ CHR ''/'' # tot @ CHR '')'' # rest"

text \<open>
  Modelled from the spec: the records of the data model (section 3). The percent of a
  progress record is a "float in [0,1]"; the other variant has no percent.
\<close>

fun percentInRange :: "ProgressRecord \<Rightarrow> bool" where
  "percentInRange (Progress d v) = (0 \<le> v \<and> v \<le> 1)"
| "percentInRange Unknown = True"

definition emitted :: "ProgressRecord \<Rightarrow> bool" where
  "emitted r = (isProgress r \<and> percentInRange r)"

text \<open>
  Modelled from the spec: the parser state (section 3, ParserState) is the buffer of the
  incomplete trailing line. A chunk is appended to the buffer, every line that a line
  feed completes is parsed, the rest stays buffered; lines that do not match "yield no
  record" (section 4.1). The parser's output is "zero or more ProgressRecord values"
  (section 4.1), so only progress records of the data model leave it: a matched line whose
  percent would lie outside [0,1] (a count above its total, a percent token above 100)
  yields no record either. The flush at the end of the stream tries the buffered partial
  line once and discards it.
\<close>

record ParserState =
  buffer :: string

text \<open>
  Modelled from the spec: a line break is a line feed, the one line break that the
  specification shows (section 8).
\<close>

definition isLineBreak :: "char \<Rightarrow> bool" where
  "isLineBreak c = (c = CHR 0x0A)"

fun splitLines :: "string \<Rightarrow> string \<Rightarrow> string list \<times> string" where
  "splitLines cur [] = ([], cur)"
| "splitLines cur (c # cs) =
     (if isLineBreak c
      then (case splitLines [] cs of (ls, r) \<Rightarrow> (cur # ls, r))
      else splitLines (cur @ [c]) cs)"

definition feed :: "ParserState \<Rightarrow> string \<Rightarrow> ProgressRecord list \<times> ParserState" where
  "feed st chunk =
     (case splitLines [] (buffer st @ chunk) of
        (ls, r) \<Rightarrow> (filter emitted (map parseLine ls), st\<lparr>buffer := r\<rparr>))"

definition flush :: "ParserState \<Rightarrow> ProgressRecord list \<times> ParserState" where
  "flush st = (filter emitted [parseLine (buffer st)], st\<lparr>buffer := []\<rparr>)"

fun feedAll :: "ParserState \<Rightarrow> string list \<Rightarrow> ProgressRecord list \<times> ParserState" where
  "feedAll st [] = ([], st)"
| "feedAll st (chunk # chunks) =
     (case feed st chunk of
        (rs, st') \<Rightarrow> (case feedAll st' chunks of (rs', st'') \<Rightarrow> (rs @ rs', st'')))"

definition parseStream :: "ParserState \<Rightarrow> string list \<Rightarrow> ProgressRecord list" where
  "parseStream st chunks =
     (case feedAll st chunks of (rs, st') \<Rightarrow> rs @ fst (flush st'))"

text \<open>
  Modelled from the spec: \<^verbatim>\<open>new CheckoutProgressParser()\<close>, a fresh parser with an
  empty buffer ("each invocation owns its own parser and buffer", section 5).
\<close>

definition CheckoutProgressParser :: ParserState where
  "CheckoutProgressParser = \<lparr>buffer = []\<rparr>"

section \<open>The progress callback adapter and the process layer\<close>

text \<open>
  A progress event as \<^verbatim>\<open>checkoutBranch\<close> builds it. \<^verbatim>\<open>description\<close> is
  optional: the object literal of the initial event has no such property.
\<close>

record ICheckoutProgress =
  kind :: string
  title :: string
  description :: "string option"
  "value" :: real
  targetBranch :: string

text \<open>
  The spawned process, as far as progress reporting sees it: the chunks of text it writes
  to its output stream, in order, up to the end of the stream.
\<close>

record ChildProcess =
  stderr :: "string list"

text \<open>
  The caller's callback is a function of the caller: it is modelled as a transformer of a
  caller state \<open>'c\<close>, so that one invocation after another is function composition
  and the order of the invocations is visible. It is taken to return normally.
  \<^verbatim>\<open>IGitExecutionOptions\<close> is declared outside the source files; the one field
  \<^verbatim>\<open>checkoutBranch\<close> sets is modelled, all other fields live in the extension of the
  record.
\<close>

type_synonym 'c ProgressCallback = "ICheckoutProgress \<Rightarrow> 'c \<Rightarrow> 'c"

type_synonym 'c ProcessCallback = "ChildProcess \<Rightarrow> 'c \<Rightarrow> 'c"

record 'c IGitExecutionOptions =
  processCallback :: "'c ProcessCallback option"

text \<open>
  Modelled from the spec: \<^verbatim>\<open>progressProcessCallback\<close> (section 4.2). Attached to the
  process's stream it hands every record of the parser to the given function, "in receipt
  order", within the caller's thread.
\<close>

definition progressProcessCallback ::
  "ParserState \<Rightarrow> (ProgressRecord \<Rightarrow> 'c \<Rightarrow> 'c) \<Rightarrow> 'c ProcessCallback" where
  "progressProcessCallback parser progressCallback =
     (\<lambda>process s. foldl (\<lambda>s' r. progressCallback r s') s (parseStream parser (stderr process)))"

text \<open>
  Modelled from the spec: \<^verbatim>\<open>git\<close>, the process execution layer (sections 2 and 6).
  It spawns the tool with the arguments and lets the process callback of the options, if
  there is one, attach itself to the process. The result records what was run and the
  caller's state afterwards. Whether the tool succeeds is independent of progress
  reporting (section 4.2) and is not part of the model.
\<close>

record ('c, 'z) GitRun =
  gitArgs :: "string list"
  gitPath :: string
  gitName :: string
  gitOptions :: "('c, 'z) IGitExecutionOptions_scheme"
  callerState :: 'c

definition git ::
  "string list \<Rightarrow> string \<Rightarrow> string \<Rightarrow> ('c, 'z) IGitExecutionOptions_scheme \<Rightarrow>
   ChildProcess \<Rightarrow> 'c \<Rightarrow> ('c, 'z) GitRun" where
  "git args path name options process s =
     \<lparr>gitArgs = args, gitPath = path, gitName = name, gitOptions = options,
      callerState = (case processCallback options of None \<Rightarrow> s | Some cb \<Rightarrow> cb process s)\<rparr>"

section \<open>checkout.ts\<close>

text \<open>
  The function that \<^verbatim>\<open>checkoutBranch\<close> passes to the adapter (lines 32 to 39): a
  record of kind progress becomes one event for the caller, any other record does nothing.
\<close>

definition onProgress ::
  "string \<Rightarrow> string \<Rightarrow> string \<Rightarrow> 'c ProgressCallback \<Rightarrow> ProgressRecord \<Rightarrow> 'c \<Rightarrow> 'c" where
  "onProgress kind' title' targetBranch' progressCallback progress s =
     (case progress of
        Progress description' value' \<Rightarrow>
          progressCallback \<lparr>kind = kind', title = title', description = Some description',
                            value = value', targetBranch = targetBranch'\<rparr> s
      | Unknown \<Rightarrow> s)"

text \<open>
  \<^verbatim>\<open>checkoutBranch\<close> (lines 23 to 55). With a progress callback it builds the process
  callback, invokes the callback with the initial event, and only then calls
  \<^verbatim>\<open>git\<close>.
\<close>

definition checkoutBranch ::
  "string \<Rightarrow> string \<Rightarrow> ('c, 'z) IGitExecutionOptions_scheme \<Rightarrow> 'c ProgressCallback option \<Rightarrow>
   ChildProcess \<Rightarrow> 'c \<Rightarrow> ('c, 'z) GitRun" where
  "checkoutBranch repositoryPath name options progressCallback process s =
     (case (case progressCallback of
              None \<Rightarrow> (None, s)
            | Some cb \<Rightarrow>
                (let title' = ''Checking out branch '' @ name;
                     kind' = ''checkout'';
                     targetBranch' = name
                 in (Some (progressProcessCallback CheckoutProgressParser
                             (onProgress kind' title' targetBranch' cb)),
                     cb \<lparr>kind = kind', title = title', description = None, value = 0,
                         targetBranch = targetBranch'\<rparr> s))) of
        (processCallback', s') \<Rightarrow>
          (let args = (case processCallback' of
                         Some cb \<Rightarrow> [''checkout'', ''--progress'', name, ''--'']
                       | None \<Rightarrow> [''checkout'', name, ''--'']);
               opts = options\<lparr>processCallback := processCallback'\<rparr>
           in git args repositoryPath ''checkoutBranch'' opts process s'))"

text \<open>
  \<^verbatim>\<open>checkout\<close> (lines 71 to 85) and \<^verbatim>\<open>checkoutPaths\<close> (lines 58 to 60).
  \<^verbatim>\<open>Path.relative\<close> belongs to the runtime's library and is a parameter. The optional
  flags are absent, false or true; an absent flag is falsy, as is the empty string.
\<close>

definition truthy :: "bool option \<Rightarrow> bool" where
  "truthy b = (b = Some True)"

definition checkout ::
  "(string \<Rightarrow> string \<Rightarrow> string) \<Rightarrow> string \<Rightarrow> string list \<Rightarrow> string \<Rightarrow> bool option \<Rightarrow> bool option \<Rightarrow>
   ('c, 'z) IGitExecutionOptions_scheme \<Rightarrow> ChildProcess \<Rightarrow> 'c \<Rightarrow> ('c, 'z) GitRun" where
  "checkout relative repositoryPath paths commitSHA merge force options process s =
     (let args0 = [''checkout''];
          args1 = (if commitSHA \<noteq> [] then args0 @ [commitSHA] else args0);
          args2 = (if truthy merge then args1 @ [''-m''] else args1);
          args3 = (if truthy force then args2 @ [''-f''] else args2);
          args4 = args3 @ [''--''];
          args5 = args4 @ map (\<lambda>p. relative repositoryPath p) paths
      in git args5 repositoryPath ''checkoutPaths'' options process s)"

definition checkoutPaths ::
  "(string \<Rightarrow> string \<Rightarrow> string) \<Rightarrow> string \<Rightarrow> string list \<Rightarrow>
   ('c, 'z) IGitExecutionOptions_scheme \<Rightarrow> ChildProcess \<Rightarrow> 'c \<Rightarrow> ('c, 'z) GitRun" where
  "checkoutPaths relative repositoryPath paths options process s =
     checkout relative repositoryPath paths ''HEAD'' (Some False) (Some False) options process s"

text \<open>
  To observe the invocations of the caller's callback, the caller's state is the list of
  the events received so far, oldest first, and the callback appends to it.
\<close>

definition recordEvent :: "(ICheckoutProgress list) ProgressCallback" where
  "recordEvent e seen = seen @ [e]"

text \<open>
  The events that a sequence of records stands for, for stating what the adapter
  delivers: one event for each progress record, in order, none for any other record.
\<close>

fun eventsOf :: "string \<Rightarrow> string \<Rightarrow> string \<Rightarrow> ProgressRecord list \<Rightarrow> ICheckoutProgress list" where
  "eventsOf k t b [] = []"
| "eventsOf k t b (Progress d v # rs) =
     \<lparr>kind = k, title = t, description = Some d, value = v, targetBranch = b\<rparr> # eventsOf k t b rs"
| "eventsOf k t b (Unknown # rs) = eventsOf k t b rs"


section \<open>test-helper.ts\<close>

text \<open>
  The helpers work on the file system through the runtime's \<^verbatim>\<open>fs\<close> and
  \<^verbatim>\<open>path\<close> modules, which are not part of the repository. The file system is
  modelled as a map from paths to nodes, with the operations the helpers call; each
  operation fails as the runtime's does where the path is missing or of the wrong kind.
  Directories are not nested in the model: a write does not ask for the parent directory.
  \<^verbatim>\<open>path.join\<close> is a parameter of every helper. An exception is a value of type
  \<open>Error\<close>: \<open>Error\<close> with the message for a \<^verbatim>\<open>throw new Error(...)\<close> of the
  helpers, \<open>SystemError\<close> with the code for one raised by the file system.
  A helper returns its result or its exception together with the file system as it is
  at that moment.
\<close>

datatype Node = File string | Directory

type_synonym FileSystem = "string \<Rightarrow> Node option"

datatype Error = Error string | SystemError string

definition existsSync :: "FileSystem \<Rightarrow> string \<Rightarrow> bool" where
  "existsSync fs p = (fs p \<noteq> None)"

definition statSync :: "FileSystem \<Rightarrow> string \<Rightarrow> Error + Node" where
  "statSync fs p = (case fs p of None \<Rightarrow> Inl (SystemError ''ENOENT'') | Some n \<Rightarrow> Inr n)"

fun isFile :: "Node \<Rightarrow> bool" where
  "isFile (File d) = True"
| "isFile Directory = False"

definition unlinkSync :: "FileSystem \<Rightarrow> string \<Rightarrow> Error + FileSystem" where
  "unlinkSync fs p =
     (case fs p of
        None \<Rightarrow> Inl (SystemError ''ENOENT'')
      | Some Directory \<Rightarrow> Inl (SystemError ''EPERM'')
      | Some (File d) \<Rightarrow> Inr (fs(p := None)))"

definition writeFileSync :: "FileSystem \<Rightarrow> string \<Rightarrow> string \<Rightarrow> Error + FileSystem" where
  "writeFileSync fs p d =
     (case fs p of
        Some Directory \<Rightarrow> Inl (SystemError ''EISDIR'')
      | _ \<Rightarrow> Inr (fs(p \<mapsto> File d)))"

definition readFileSync :: "FileSystem \<Rightarrow> string \<Rightarrow> Error + string" where
  "readFileSync fs p =
     (case fs p of
        None \<Rightarrow> Inl (SystemError ''ENOENT'')
      | Some Directory \<Rightarrow> Inl (SystemError ''EISDIR'')
      | Some (File d) \<Rightarrow> Inr d)"

definition renameSync :: "FileSystem \<Rightarrow> string \<Rightarrow> string \<Rightarrow> Error + FileSystem" where
  "renameSync fs oldPath' newPath' =
     (case fs oldPath' of
        None \<Rightarrow> Inl (SystemError ''ENOENT'')
      | Some n \<Rightarrow> Inr ((fs(oldPath' := None))(newPath' \<mapsto> n)))"

text \<open>
  A helper takes one entry or an array of entries
  (\<^verbatim>\<open>Array.isArray(x) ? x : [x]\<close>).
\<close>

datatype 'a OneOrMany = One 'a | Many "'a list"

fun toArray :: "'a OneOrMany \<Rightarrow> 'a list" where
  "toArray (Many xs) = xs"
| "toArray (One x) = [x]"

record 'd FileData =
  path :: string
  data :: 'd

record FileRename =
  oldPath :: string
  newPath :: string

text \<open>
  The loop \<^verbatim>\<open>for (const f of files) { ... }\<close>: the body runs on each entry in turn
  and the first exception ends the loop, leaving the file system as the body left it.
\<close>

fun forEach ::
  "('a \<Rightarrow> FileSystem \<Rightarrow> Error option \<times> FileSystem) \<Rightarrow> 'a list \<Rightarrow> FileSystem \<Rightarrow>
   Error option \<times> FileSystem" where
  "forEach body [] fs = (None, fs)"
| "forEach body (f # files) fs =
     (case body f fs of
        (Some e, fs') \<Rightarrow> (Some e, fs')
      | (None, fs') \<Rightarrow> forEach body files fs')"

text \<open>The \<^verbatim>\<open>return\<close> after the loop, reached only when no body threw.\<close>

definition returning :: "'r \<Rightarrow> Error option \<times> FileSystem \<Rightarrow> (Error + 'r) \<times> FileSystem" where
  "returning r out = (case out of (Some e, fs) \<Rightarrow> (Inl e, fs) | (None, fs) \<Rightarrow> (Inr r, fs))"

text \<open>\<^verbatim>\<open>remove\<close> (lines 48 to 63).\<close>

definition removeBody :: "string \<Rightarrow> FileSystem \<Rightarrow> Error option \<times> FileSystem" where
  "removeBody f fs =
     (if \<not> existsSync fs f
      then (Some (Error (''Cannot delete file '' @ f @ '', it does not exist.'')), fs)
      else (case statSync fs f of
              Inl e \<Rightarrow> (Some e, fs)
            | Inr st \<Rightarrow>
                (if \<not> isFile st
                 then (Some (Error (''Only files can be deleted, directories not: '' @ f @ ''.'')), fs)
                 else (case unlinkSync fs f of
                         Inl e \<Rightarrow> (Some e, fs)
                       | Inr fs' \<Rightarrow>
                           (if existsSync fs' f
                            then (Some (Error (''Cannot delete file: '' @ f @ ''.'')), fs')
                            else (None, fs'))))))"

definition remove ::
  "(string \<Rightarrow> string \<Rightarrow> string) \<Rightarrow> string \<Rightarrow> string OneOrMany \<Rightarrow> FileSystem \<Rightarrow>
   (Error + string list) \<times> FileSystem" where
  "remove join repositoryPath filesToDelete fs =
     (let files = map (\<lambda>f. join repositoryPath f) (toArray filesToDelete)
      in returning files (forEach removeBody files fs))"

text \<open>
  \<^verbatim>\<open>add\<close> (lines 65 to 79); \<^verbatim>\<open>f.data || ''\<close> is the empty string for
  absent data.
\<close>

definition addBody :: "string FileData \<Rightarrow> FileSystem \<Rightarrow> Error option \<times> FileSystem" where
  "addBody f fs =
     (if existsSync fs (path f)
      then (Some (Error (''File '' @ path f @ '', already exists.'')), fs)
      else (case writeFileSync fs (path f) (data f) of
              Inl e \<Rightarrow> (Some e, fs)
            | Inr fs' \<Rightarrow>
                (if \<not> existsSync fs' (path f)
                 then (Some (Error (''Cannot create new file: '' @ path f @ ''.'')), fs')
                 else (None, fs'))))"

definition add ::
  "(string \<Rightarrow> string \<Rightarrow> string) \<Rightarrow> string \<Rightarrow> (string option) FileData OneOrMany \<Rightarrow> FileSystem \<Rightarrow>
   (Error + string list) \<times> FileSystem" where
  "add join repositoryPath filesToCreate fs =
     (let files = map (\<lambda>f. \<lparr>path = join repositoryPath (path f),
                              data = (case data f of None \<Rightarrow> [] | Some d \<Rightarrow> d)\<rparr>)
                      (toArray filesToCreate)
      in returning (map path files) (forEach addBody files fs))"

text \<open>\<^verbatim>\<open>modify\<close> (lines 81 to 98).\<close>

definition modifyBody :: "string FileData \<Rightarrow> FileSystem \<Rightarrow> Error option \<times> FileSystem" where
  "modifyBody f fs =
     (if \<not> existsSync fs (path f)
      then (Some (Error (''Cannot modify the content of the file '' @ path f
                          @ '', it does not exist.'')), fs)
      else (case statSync fs (path f) of
              Inl e \<Rightarrow> (Some e, fs)
            | Inr st \<Rightarrow>
                (if \<not> isFile st
                 then (Some (Error (''Only files can be modified, directories not: ''
                                     @ path f @ ''.'')), fs)
                 else (case writeFileSync fs (path f) (data f) of
                         Inl e \<Rightarrow> (Some e, fs)
                       | Inr fs' \<Rightarrow>
                           (if \<not> existsSync fs' (path f)
                            then (Some (Error (''Cannot modify the file content file: ''
                                                @ path f @ ''.'')), fs')
                            else (case readFileSync fs' (path f) of
                                    Inl e \<Rightarrow> (Some e, fs')
                                  | Inr d \<Rightarrow>
                                      (if d \<noteq> data f
                                       then (Some (Error (''Cannot modify the file content file: ''
                                                           @ path f @ ''.'')), fs')
                                       else (None, fs'))))))))"

definition modify ::
  "(string \<Rightarrow> string \<Rightarrow> string) \<Rightarrow> string \<Rightarrow> string FileData OneOrMany \<Rightarrow> FileSystem \<Rightarrow>
   (Error + string list) \<times> FileSystem" where
  "modify join repositoryPath filesToModify fs =
     (let files = map (\<lambda>f. \<lparr>path = join repositoryPath (path f), data = data f\<rparr>)
                      (toArray filesToModify)
      in returning (map path files) (forEach modifyBody files fs))"

text \<open>\<^verbatim>\<open>rename\<close> (lines 100 to 120).\<close>

definition renameBody :: "FileRename \<Rightarrow> FileSystem \<Rightarrow> Error option \<times> FileSystem" where
  "renameBody f fs =
     (if \<not> existsSync fs (oldPath f)
      then (Some (Error (''Cannot rename the file '' @ oldPath f @ '', it does not exist.'')), fs)
      else if existsSync fs (newPath f)
      then (Some (Error (''Cannot rename the file '' @ oldPath f
                          @ '', a file already exists in the destination: ''
                          @ newPath f @ ''.'')), fs)
      else (case statSync fs (oldPath f) of
              Inl e \<Rightarrow> (Some e, fs)
            | Inr st \<Rightarrow>
                (if \<not> isFile st
                 then (Some (Error (''Only files can be renamed, directories not: ''
                                     @ oldPath f @ ''.'')), fs)
                 else (case renameSync fs (oldPath f) (newPath f) of
                         Inl e \<Rightarrow> (Some e, fs)
                       | Inr fs' \<Rightarrow>
                           (if \<not> existsSync fs' (newPath f) \<or> existsSync fs' (oldPath f)
                            then (Some (Error (''Cannot rename file: '' @ oldPath f @ '' -> ''
                                                @ newPath f @ ''.'')), fs')
                            else (None, fs'))))))"

definition rename ::
  "(string \<Rightarrow> string \<Rightarrow> string) \<Rightarrow> string \<Rightarrow> FileRename OneOrMany \<Rightarrow> FileSystem \<Rightarrow>
   (Error + string list) \<times> FileSystem" where
  "rename join repositoryPath filesToRename fs =
     (let files = map (\<lambda>f. \<lparr>oldPath = join repositoryPath (oldPath f),
                              newPath = join repositoryPath (newPath f)\<rparr>)
                      (toArray filesToRename)
      in returning (map oldPath files @ map newPath files) (forEach renameBody files fs))"

text \<open>A join and a small repository for concrete runs.\<close>

definition testJoin :: "string \<Rightarrow> string \<Rightarrow> string" where
  "testJoin a b = a @ ''/'' @ b"

definition testFs :: FileSystem where
  "testFs = [''/r/A.txt'' \<mapsto> File ''A'', ''/r/B.txt'' \<mapsto> File ''B'', ''/r/folder'' \<mapsto> Directory]"

text \<open>The path names a regular file: it exists and is not a directory.\<close>

definition isRegularFile :: "FileSystem \<Rightarrow> string \<Rightarrow> bool" where
  "isRegularFile fs p = (case fs p of Some (File d) \<Rightarrow> True | _ \<Rightarrow> False)"

section \<open>Arguments handed to the tool\<close>

text \<open>
  C8. The argument list that \<^verbatim>\<open>checkoutBranch\<close> passes to \<^verbatim>\<open>git\<close> is
  \<^verbatim>\<open>['checkout', '--progress', name, '--']\<close> when a progress callback is supplied and
  \<^verbatim>\<open>['checkout', name, '--']\<close> when it is not; so the list with the flag is passed
  if and only if a callback was given.
\<close>

theorem checkoutBranch_args:
  "gitArgs (checkoutBranch repositoryPath name options (Some cb) process s)
     = [''checkout'', ''--progress'', name, ''--'']
   \<and> gitArgs (checkoutBranch repositoryPath name options None process s)
     = [''checkout'', name, ''--'']
   \<and> ((gitArgs (checkoutBranch repositoryPath name options progressCallback process s)
        = [''checkout'', ''--progress'', name, ''--'']) = (progressCallback \<noteq> None))"
  by (cases progressCallback) (simp_all add: checkoutBranch_def git_def Let_def)

text \<open>
  C9. \<^verbatim>\<open>checkout\<close> passes \<^verbatim>\<open>'checkout'\<close>, then the commit SHA if and only if it
  is not the empty string, then \<^verbatim>\<open>-m\<close> and \<^verbatim>\<open>-f\<close> as requested, then
  \<^verbatim>\<open>--\<close>, then every supplied path made relative to the repository path, in
  order. So the argument right after \<^verbatim>\<open>'checkout'\<close> is the commit SHA exactly when
  it is not empty, and \<^verbatim>\<open>checkoutPaths\<close> always passes the tree-ish
  \<^verbatim>\<open>'HEAD'\<close> and no flag.
\<close>

theorem checkout_args:
  "gitArgs (checkout relative repositoryPath paths commitSHA merge force options process s)
     = [''checkout''] @ (if commitSHA = [] then [] else [commitSHA])
       @ (if truthy merge then [''-m''] else []) @ (if truthy force then [''-f''] else [])
       @ [''--''] @ map (relative repositoryPath) paths
   \<and> ((gitArgs (checkout relative repositoryPath paths commitSHA merge force options process s) ! 1
          = commitSHA) = (commitSHA \<noteq> []))
   \<and> checkoutPaths relative repositoryPath paths options process s
     = checkout relative repositoryPath paths ''HEAD'' (Some False) (Some False) options process s
   \<and> gitArgs (checkoutPaths relative repositoryPath paths options process s)
     = [''checkout'', ''HEAD'', ''--''] @ map (relative repositoryPath) paths"
  by (simp add: checkoutPaths_def checkout_def git_def truthy_def Let_def)

section \<open>The progress parser\<close>

lemma emitted_Unknown [simp]: "\<not> emitted Unknown"
  by (simp add: emitted_def)

lemma emitted_Progress [simp]: "emitted (Progress d v) = (0 \<le> v \<and> v \<le> 1)"
  by (simp add: emitted_def)






lemma over_total_not_emitted:
  "parseLine ''Checking out files: 150% (15/10)''
     = Progress ''Checking out files: 150% (15/10)'' (3 / 2)
   \<and> parseStream CheckoutProgressParser [''Checking out files: 150% (15/10)'' @ [CHR 0x0A]] = []"
  by code_simp

lemma splitLines_append:
  "splitLines cur (a @ b) =
     (case splitLines cur a of (la, ra) \<Rightarrow> (case splitLines ra b of (lb, rb) \<Rightarrow> (la @ lb, rb)))"
  by (induction a arbitrary: cur) (auto split: prod.splits)

lemma splitLines_carry:
  "list_all (\<lambda>c. \<not> isLineBreak c) cur \<Longrightarrow> splitLines pre (cur @ t) = splitLines (pre @ cur) t"
  by (induction cur arbitrary: pre) auto

lemma splitLines_rest:
  "list_all (\<lambda>c. \<not> isLineBreak c) cur \<Longrightarrow>
     list_all (\<lambda>c. \<not> isLineBreak c) (snd (splitLines cur t))"
proof (induction t arbitrary: cur)
  case Nil
  then show ?case by simp
next
  case (Cons c t)
  show ?case
  proof (cases "isLineBreak c")
    case True
    have "list_all (\<lambda>c. \<not> isLineBreak c) (snd (splitLines [] t))"
      by (rule Cons.IH) simp
    with True show ?thesis by (cases "splitLines [] t") simp_all
  next
    case False
    have "list_all (\<lambda>c. \<not> isLineBreak c) (snd (splitLines (cur @ [c]) t))"
      by (rule Cons.IH) (simp add: Cons.prems False)
    with False show ?thesis by simp
  qed
qed

lemma feed_append:
  "feed st (a @ b) =
     (case feed st a of (ra, st') \<Rightarrow> (case feed st' b of (rb, st'') \<Rightarrow> (ra @ rb, st'')))"
proof -
  obtain la ra where a: "splitLines [] (buffer st @ a) = (la, ra)" by (cases "splitLines [] (buffer st @ a)")
  obtain lb rb where b: "splitLines ra b = (lb, rb)" by (cases "splitLines ra b")
  have "list_all (\<lambda>c. \<not> isLineBreak c) (snd (splitLines [] (buffer st @ a)))"
    by (rule splitLines_rest) simp
  then have ra: "list_all (\<lambda>c. \<not> isLineBreak c) ra" by (simp add: a)
  have whole: "splitLines [] (buffer st @ a @ b) = (la @ lb, rb)"
    using splitLines_append [of "[]" "buffer st @ a" b] by (simp add: a b)
  have second: "splitLines [] (ra @ b) = (lb, rb)"
    using splitLines_carry [OF ra, of "[]" b] by (simp add: b)
  show ?thesis by (simp add: feed_def a whole second)
qed

lemma splitLines_no_break:
  "splitLines cur (filter (\<lambda>c. \<not> isLineBreak c) t) = ([], cur @ filter (\<lambda>c. \<not> isLineBreak c) t)"
  by (induction t arbitrary: cur) auto

lemma feed_half_line:
  "feed CheckoutProgressParser ''Checking out files: 50% (5/10)'' =
     ([], \<lparr>buffer = ''Checking out files: 50% (5/10)''\<rparr>)"
  by code_simp

text \<open>
  C4. Chunk-splitting invariance: for every parser state, every text and every offset,
  feeding the text as one chunk gives the same records, and leaves the same buffer, as
  feeding the part before the offset and then the part after it; the same holds for the
  whole stream with its final flush. A chunk without a line break gives no record and is
  buffered whole.
\<close>

theorem feed_split_invariant:
  "fst (feed st chunk)
     = fst (feed st (take k chunk)) @ fst (feed (snd (feed st (take k chunk))) (drop k chunk))
   \<and> snd (feed st chunk) = snd (feed (snd (feed st (take k chunk))) (drop k chunk))
   \<and> parseStream st [chunk] = parseStream st [take k chunk, drop k chunk]
   \<and> feed CheckoutProgressParser (filter (\<lambda>c. \<not> isLineBreak c) chunk)
       = ([], \<lparr>buffer = filter (\<lambda>c. \<not> isLineBreak c) chunk\<rparr>)"
proof -
  have "feed st (take k chunk @ drop k chunk) =
     (case feed st (take k chunk) of
        (ra, st') \<Rightarrow> (case feed st' (drop k chunk) of (rb, st'') \<Rightarrow> (ra @ rb, st'')))"
    by (rule feed_append)
  then have split: "feed st chunk =
     (case feed st (take k chunk) of
        (ra, st') \<Rightarrow> (case feed st' (drop k chunk) of (rb, st'') \<Rightarrow> (ra @ rb, st'')))"
    by simp
  have one: "fst (feed st chunk)
     = fst (feed st (take k chunk)) @ fst (feed (snd (feed st (take k chunk))) (drop k chunk))"
    by (subst split) (simp split: prod.splits)
  have two: "snd (feed st chunk) = snd (feed (snd (feed st (take k chunk))) (drop k chunk))"
    by (subst split) (simp split: prod.splits)
  have three: "parseStream st [chunk] = parseStream st [take k chunk, drop k chunk]"
    unfolding parseStream_def feedAll.simps by (subst split) (simp split: prod.splits)
  have four: "feed CheckoutProgressParser (filter (\<lambda>c. \<not> isLineBreak c) chunk)
       = ([], \<lparr>buffer = filter (\<lambda>c. \<not> isLineBreak c) chunk\<rparr>)"
    by (simp add: feed_def CheckoutProgressParser_def splitLines_no_break)
  from one two three four show ?thesis by blast
qed


lemma takeWhile_stop:
  "list_all P xs \<Longrightarrow> \<not> P y \<Longrightarrow> takeWhile P (xs @ y # ys) = xs"
  by (induction xs) simp_all

lemma dropWhile_stop:
  "list_all P xs \<Longrightarrow> \<not> P y \<Longrightarrow> dropWhile P (xs @ y # ys) = y # ys"
  by (induction xs) simp_all

lemma isDigit_not_special:
  "isDigit c \<Longrightarrow> c \<noteq> CHR ''/'' \<and> c \<noteq> CHR '')'' \<and> c \<noteq> CHR ''%'' \<and> \<not> isBlank c"
  by (auto simp: isDigit_def isBlank_def)

lemma readNat_digits: "readNat s = Some n \<Longrightarrow> s \<noteq> [] \<and> list_all isDigit s"
  by (simp add: readNat_def split: if_splits)

lemma digits_no_slash: "list_all isDigit s \<Longrightarrow> list_all (\<lambda>c. c \<noteq> CHR ''/'') s"
  by (induction s) (simp_all add: isDigit_not_special)

lemma digits_no_paren: "list_all isDigit s \<Longrightarrow> list_all (\<lambda>c. c \<noteq> CHR '')'') s"
  by (induction s) (simp_all add: isDigit_not_special)

lemma dropWhile_blanks:
  "\<not> isBlank y \<Longrightarrow> dropWhile isBlank (replicate k (CHR '' '') @ y # ys) = y # ys"
  by (induction k) (simp_all add: isBlank_def)

lemma matchPercentToken_digits:
  assumes "ds \<noteq> []" and "list_all isDigit ds"
  shows "matchPercentToken (ds @ CHR ''%'' # r) = (Some ds, dropWhile isBlank r)"
proof -
  have np: "\<not> isDigit (CHR ''%'')" by (simp add: isDigit_def)
  have t: "takeWhile isDigit (ds @ CHR ''%'' # r) = ds"
    using assms(2) np by (rule takeWhile_stop)
  have d: "dropWhile isDigit (ds @ CHR ''%'' # r) = CHR ''%'' # r"
    using assms(2) np by (rule dropWhile_stop)
  show ?thesis by (simp add: matchPercentToken_def t d assms(1))
qed

lemma matchPair_fields:
  assumes "list_all (\<lambda>c. c \<noteq> CHR ''/'') cnt" and "list_all (\<lambda>c. c \<noteq> CHR '')'') tot"
  shows "matchPair (CHR ''('' # cnt @ CHR ''/'' # tot @ CHR '')'' # rest) = Some (cnt, tot)"
proof -
  have t1: "takeWhile (\<lambda>c. c \<noteq> CHR ''/'') (cnt @ CHR ''/'' # tot @ CHR '')'' # rest) = cnt"
    using assms(1) by (rule takeWhile_stop) simp
  have d1: "dropWhile (\<lambda>c. c \<noteq> CHR ''/'') (cnt @ CHR ''/'' # tot @ CHR '')'' # rest)
      = CHR ''/'' # tot @ CHR '')'' # rest"
    using assms(1) by (rule dropWhile_stop) simp
  have t2: "takeWhile (\<lambda>c. c \<noteq> CHR '')'') (tot @ CHR '')'' # rest) = tot"
    using assms(2) by (rule takeWhile_stop) simp
  have d2: "dropWhile (\<lambda>c. c \<noteq> CHR '')'') (tot @ CHR '')'' # rest) = CHR '')'' # rest"
    using assms(2) by (rule dropWhile_stop) simp
  show ?thesis by (simp add: matchPair_def t1 d1 t2 d2)
qed

lemma matchLine_progressLine:
  assumes "lbl \<noteq> []" and "list_all (\<lambda>c. c \<noteq> CHR '':'') lbl"
    and "ds \<noteq> []" and "list_all isDigit ds"
    and "list_all isDigit cnt" and "list_all isDigit tot"
  shows "matchLine (progressLine lbl k ds j cnt tot rest)
     = Some \<lparr>label = lbl, percentToken = Some ds, pair = Some (cnt, tot)\<rparr>"
proof -
  let ?tail = "CHR ''('' # cnt @ CHR ''/'' # tot @ CHR '')'' # rest"
  let ?afterColon = "replicate k (CHR '' '') @ ds @ CHR ''%'' # replicate j (CHR '' '') @ ?tail"
  have l: "takeWhile (\<lambda>c. c \<noteq> CHR '':'') (lbl @ CHR '':'' # ?afterColon) = lbl"
    using assms(2) by (rule takeWhile_stop) simp
  have r: "dropWhile (\<lambda>c. c \<noteq> CHR '':'') (lbl @ CHR '':'' # ?afterColon) = CHR '':'' # ?afterColon"
    using assms(2) by (rule dropWhile_stop) simp
  obtain d ds' where ds: "ds = d # ds'" using assms(3) by (cases ds) auto
  then have "isDigit d" using assms(4) by simp
  then have nb: "\<not> isBlank d" by (simp add: isDigit_not_special)
  have b: "dropWhile isBlank ?afterColon = ds @ CHR ''%'' # replicate j (CHR '' '') @ ?tail"
    using dropWhile_blanks [OF nb, of k "ds' @ CHR ''%'' # replicate j (CHR '' '') @ ?tail"]
    by (simp add: ds)
  have tok: "matchPercentToken (ds @ CHR ''%'' # replicate j (CHR '' '') @ ?tail)
      = (Some ds, dropWhile isBlank (replicate j (CHR '' '') @ ?tail))"
    using assms(3,4) by (rule matchPercentToken_digits)
  have b2: "dropWhile isBlank (replicate j (CHR '' '') @ ?tail) = ?tail"
    by (rule dropWhile_blanks) (simp add: isBlank_def)
  have pr: "matchPair ?tail = Some (cnt, tot)"
    using digits_no_slash [OF assms(5)] digits_no_paren [OF assms(6)] by (rule matchPair_fields)
  show ?thesis
    unfolding progressLine_def matchLine_def Let_def l r
    using assms(1) by (simp add: b tok b2 pr del: replicate.simps)
qed

text \<open>
  C3. A matched line whose total is zero gives a progress record with percent 0; the
  parser has no failing branch. This holds for every line the pattern matches with such a
  pair, and every line of the tool's shape with a zero total is one.
\<close>

theorem zero_total_is_zero_percent:
  assumes "readNat tot = Some 0"
  shows "(matchLine l = Some m \<and> pair m = Some (cnt, tot) \<longrightarrow> parseLine l = Progress l 0)
     \<and> (lbl \<noteq> [] \<and> list_all (\<lambda>c. c \<noteq> CHR '':'') lbl \<and> ds \<noteq> [] \<and> list_all isDigit ds
          \<and> list_all isDigit cnt
        \<longrightarrow> parseLine (progressLine lbl k ds j cnt tot rest)
              = Progress (progressLine lbl k ds j cnt tot rest) 0)"
proof -
  have zero: "percentOf m' = 0" if "pair m' = Some (cnt, tot)" for m'
    using that assms by (simp add: percentOf_def split: option.splits)
  have one: "parseLine l = Progress l 0" if "matchLine l = Some m" and "pair m = Some (cnt, tot)"
    using that zero [of m] by (simp add: parseLine_def)
  have two: "parseLine (progressLine lbl k ds j cnt tot rest)
              = Progress (progressLine lbl k ds j cnt tot rest) 0"
    if "lbl \<noteq> []" and "list_all (\<lambda>c. c \<noteq> CHR '':'') lbl" and "ds \<noteq> []"
      and "list_all isDigit ds" and "list_all isDigit cnt"
  proof -
    have "list_all isDigit tot" using assms by (simp add: readNat_digits)
    with that have "matchLine (progressLine lbl k ds j cnt tot rest)
        = Some \<lparr>label = lbl, percentToken = Some ds, pair = Some (cnt, tot)\<rparr>"
      by (intro matchLine_progressLine)
    then show ?thesis
      using zero [of "\<lparr>label = lbl, percentToken = Some ds, pair = Some (cnt, tot)\<rparr>"]
      by (simp add: parseLine_def)
  qed
  from one two show ?thesis by blast
qed

text \<open>
  C5. A matched line with a pair of a numeric count and a numeric total above zero gives
  a progress record whose percent is the count divided by the total (exactly, the percent
  being a real number here); every line of the tool's shape with such a pair is one. The
  line \<^verbatim>\<open>Resolving deltas:  37% (370/1000)\<close> gives 0.37.
\<close>

theorem percent_is_count_over_total:
  assumes "readNat cnt = Some c" and "readNat tot = Some t" and "0 < t"
  shows "(matchLine l = Some m \<and> pair m = Some (cnt, tot)
          \<longrightarrow> parseLine l = Progress l (real c / real t))
     \<and> (lbl \<noteq> [] \<and> list_all (\<lambda>c. c \<noteq> CHR '':'') lbl \<and> ds \<noteq> [] \<and> list_all isDigit ds
        \<longrightarrow> parseLine (progressLine lbl k ds j cnt tot rest)
              = Progress (progressLine lbl k ds j cnt tot rest) (real c / real t))"
proof -
  have pct: "percentOf m' = real c / real t" if "pair m' = Some (cnt, tot)" for m'
    using that assms by (simp add: percentOf_def)
  have one: "parseLine l = Progress l (real c / real t)"
    if "matchLine l = Some m" and "pair m = Some (cnt, tot)"
    using that pct [of m] by (simp add: parseLine_def)
  have two: "parseLine (progressLine lbl k ds j cnt tot rest)
              = Progress (progressLine lbl k ds j cnt tot rest) (real c / real t)"
    if "lbl \<noteq> []" and "list_all (\<lambda>c. c \<noteq> CHR '':'') lbl" and "ds \<noteq> []"
      and "list_all isDigit ds"
  proof -
    have "list_all isDigit cnt" and "list_all isDigit tot"
      using assms by (simp_all add: readNat_digits)
    with that have "matchLine (progressLine lbl k ds j cnt tot rest)
        = Some \<lparr>label = lbl, percentToken = Some ds, pair = Some (cnt, tot)\<rparr>"
      by (intro matchLine_progressLine)
    then show ?thesis
      using pct [of "\<lparr>label = lbl, percentToken = Some ds, pair = Some (cnt, tot)\<rparr>"]
      by (simp add: parseLine_def)
  qed
  from one two show ?thesis by blast
qed

text \<open>
  C6. A line that does not match the pattern gives no record: neither when a line break
  completes it nor when the stream ends after it, and the parser is left with an empty
  buffer. The parser returns a list of records on every input; it has no error to raise.
  \<^verbatim>\<open>Checking out files: oops\<close> is such a line.
\<close>

theorem unmatched_line_yields_nothing:
  assumes "matchLine l = None" and "list_all (\<lambda>c. \<not> isLineBreak c) l"
  shows "parseLine l = Unknown
     \<and> feed CheckoutProgressParser (l @ [CHR 0x0A]) = ([], CheckoutProgressParser)
     \<and> parseStream CheckoutProgressParser [l] = []
     \<and> parseStream CheckoutProgressParser [l @ [CHR 0x0A]] = []"
proof -
  have u: "parseLine l = Unknown" using assms(1) by (simp add: parseLine_def)
  have lf: "isLineBreak (CHR 0x0A)" by (simp add: isLineBreak_def)
  have s1: "splitLines [] (l @ [CHR 0x0A]) = ([l], [])"
    using splitLines_carry [OF assms(2), of "[]" "[CHR 0x0A]"] lf by simp
  have s2: "splitLines [] l = ([], l)"
    using splitLines_carry [OF assms(2), of "[]" "[]"] by simp
  have f1: "feed CheckoutProgressParser (l @ [CHR 0x0A]) = ([], CheckoutProgressParser)"
    by (simp add: feed_def CheckoutProgressParser_def s1 u)
  have f2: "feed CheckoutProgressParser l = ([], \<lparr>buffer = l\<rparr>)"
    by (simp add: feed_def CheckoutProgressParser_def s2)
  have e: "matchLine [] = None" by (simp add: matchLine_def)
  have p1: "parseStream CheckoutProgressParser [l] = []"
    by (simp add: parseStream_def f2 flush_def u)
  have p2: "parseStream CheckoutProgressParser [l @ [CHR 0x0A]] = []"
    by (simp add: parseStream_def f1) (simp add: flush_def CheckoutProgressParser_def parseLine_def e)
  from u f1 p1 p2 show ?thesis by blast
qed


lemma oops_unmatched: "matchLine ''Checking out files: oops'' = None"
  by code_simp

theorem unmatched_line_yields_nothing_witness:
  "parseLine ''Checking out files: oops'' = Unknown
   \<and> feed CheckoutProgressParser (''Checking out files: oops'' @ [CHR 0x0A])
       = ([], CheckoutProgressParser)
   \<and> parseStream CheckoutProgressParser [''Checking out files: oops''] = []
   \<and> parseStream CheckoutProgressParser [''Checking out files: oops'' @ [CHR 0x0A]] = []"
proof -
  have nb: "list_all (\<lambda>c. \<not> isLineBreak c) ''Checking out files: oops''"
    by (simp add: isLineBreak_def)
  from unmatched_line_yields_nothing [OF oops_unmatched nb] show ?thesis .
qed

lemma readNat_370: "readNat ''370'' = Some 370"
  by code_simp

lemma readNat_1000: "readNat ''1000'' = Some 1000"
  by code_simp

lemma readNat_0: "readNat ''0'' = Some 0"
  by code_simp

lemma resolving_line:
  "progressLine ''Resolving deltas'' 2 ''37'' 1 ''370'' ''1000'' []
     = ''Resolving deltas:  37% (370/1000)''"
  by code_simp

lemma resolving_match:
  "matchLine ''Resolving deltas:  37% (370/1000)''
     = Some \<lparr>label = ''Resolving deltas'', percentToken = Some ''37'', pair = Some (''370'', ''1000'')\<rparr>"
  by code_simp

theorem percent_is_count_over_total_witness:
  "parseLine ''Resolving deltas:  37% (370/1000)''
     = Progress ''Resolving deltas:  37% (370/1000)'' 0.37
   \<and> parseLine (progressLine ''Resolving deltas'' 2 ''37'' 1 ''370'' ''1000'' [])
     = Progress ''Resolving deltas:  37% (370/1000)'' 0.37"
proof -
  have pos: "(0::nat) < 1000" by simp
  note t = percent_is_count_over_total [OF readNat_370 readNat_1000 pos,
      of "''Resolving deltas:  37% (370/1000)''"
         "\<lparr>label = ''Resolving deltas'', percentToken = Some ''37'', pair = Some (''370'', ''1000'')\<rparr>"
         "''Resolving deltas''" "''37''" 2 1 "[]"]
  have h2: "''Resolving deltas'' \<noteq> [] \<and> list_all (\<lambda>c. c \<noteq> CHR '':'') ''Resolving deltas''
      \<and> ''37'' \<noteq> [] \<and> list_all isDigit ''37''"
    by (simp add: isDigit_def)
  have v: "real 370 / real 1000 = 0.37" by simp
  from t resolving_match have a: "parseLine ''Resolving deltas:  37% (370/1000)''
     = Progress ''Resolving deltas:  37% (370/1000)'' (real 370 / real 1000)" by simp
  from t h2 have b: "parseLine (progressLine ''Resolving deltas'' 2 ''37'' 1 ''370'' ''1000'' [])
     = Progress (progressLine ''Resolving deltas'' 2 ''37'' 1 ''370'' ''1000'' [])
         (real 370 / real 1000)" by blast
  from a b show ?thesis unfolding resolving_line v by simp
qed

lemma zero_line:
  "progressLine ''Checking out files'' 1 ''0'' 1 ''0'' ''0'' [] = ''Checking out files: 0% (0/0)''"
  by code_simp

lemma zero_match:
  "matchLine ''Checking out files: 0% (0/0)''
     = Some \<lparr>label = ''Checking out files'', percentToken = Some ''0'', pair = Some (''0'', ''0'')\<rparr>"
  by code_simp

theorem zero_total_is_zero_percent_witness:
  "parseLine ''Checking out files: 0% (0/0)'' = Progress ''Checking out files: 0% (0/0)'' 0
   \<and> parseLine (progressLine ''Checking out files'' 1 ''0'' 1 ''0'' ''0'' [])
     = Progress ''Checking out files: 0% (0/0)'' 0"
proof -
  note t = zero_total_is_zero_percent [OF readNat_0,
      of "''Checking out files: 0% (0/0)''"
         "\<lparr>label = ''Checking out files'', percentToken = Some ''0'', pair = Some (''0'', ''0'')\<rparr>"
         "''0''" "''Checking out files''" "''0''" 1 1 "[]"]
  have h2: "''Checking out files'' \<noteq> [] \<and> list_all (\<lambda>c. c \<noteq> CHR '':'') ''Checking out files''
      \<and> ''0'' \<noteq> [] \<and> list_all isDigit ''0'' \<and> list_all isDigit ''0''"
    by (simp add: isDigit_def)
  from t zero_match have a: "parseLine ''Checking out files: 0% (0/0)''
     = Progress ''Checking out files: 0% (0/0)'' 0" by simp
  from t h2 have b: "parseLine (progressLine ''Checking out files'' 1 ''0'' 1 ''0'' ''0'' [])
     = Progress (progressLine ''Checking out files'' 1 ''0'' 1 ''0'' ''0'' []) 0" by blast
  from a b show ?thesis unfolding zero_line by simp
qed

section \<open>Events delivered to the caller\<close>

lemma recordEvent_apply: "recordEvent e seen = seen @ [e]"
  by (simp add: recordEvent_def)

lemma onProgress_Progress:
  "onProgress k t b cb (Progress d v) s
     = cb \<lparr>kind = k, title = t, description = Some d, value = v, targetBranch = b\<rparr> s"
  by (simp add: onProgress_def)

lemma onProgress_Unknown: "onProgress k t b cb Unknown s = s"
  by (simp add: onProgress_def)

lemma foldl_onProgress_recordEvent:
  "foldl (\<lambda>s' r. onProgress k t b recordEvent r s') seen rs = seen @ eventsOf k t b rs"
proof (induction rs arbitrary: seen)
  case Nil
  show ?case by simp
next
  case (Cons r rs)
  show ?case
  proof (cases r)
    case (Progress d v)
    then show ?thesis by (simp add: Cons.IH onProgress_Progress) (simp add: recordEvent_apply)
  next
    case Unknown
    then show ?thesis by (simp add: Cons.IH onProgress_Unknown)
  qed
qed

lemma checkoutBranch_delivered:
  "callerState (checkoutBranch repositoryPath name options (Some recordEvent) process seen)
     = seen @ \<lparr>kind = ''checkout'', title = ''Checking out branch '' @ name, description = None,
              value = 0, targetBranch = name\<rparr>
         # eventsOf ''checkout'' (''Checking out branch '' @ name) name
             (parseStream CheckoutProgressParser (stderr process))"
  by (simp add: checkoutBranch_def git_def Let_def progressProcessCallback_def
      foldl_onProgress_recordEvent) (simp add: recordEvent_apply)

lemma checkoutBranch_callerState:
  "callerState (checkoutBranch repositoryPath name options (Some cb) process s)
     = foldl (\<lambda>s' r. onProgress ''checkout'' (''Checking out branch '' @ name) name cb r s')
         (cb \<lparr>kind = ''checkout'', title = ''Checking out branch '' @ name, description = None,
              value = 0, targetBranch = name\<rparr> s)
         (parseStream CheckoutProgressParser (stderr process))"
  by (simp add: checkoutBranch_def git_def Let_def progressProcessCallback_def)

lemma eventsOf_description: "list_all (\<lambda>e. description e \<noteq> None) (eventsOf k t b rs)"
  by (induction k t b rs rule: eventsOf.induct) simp_all

text \<open>
  C1. When \<^verbatim>\<open>checkoutBranch\<close> is called with a progress callback, the first
  invocation of the callback is the initial event, with value 0 and no description; every
  event derived from the stream comes after it (each of those carries a description).
  For any callback, the caller's state after the call is the state after the initial
  event, taken through the records of the stream in order; for the callback that keeps
  the events it receives, these are the initial event and then the events of the stream.
\<close>

theorem checkoutBranch_initial_event_first:
  "callerState (checkoutBranch repositoryPath name options (Some cb) process s)
     = foldl (\<lambda>s' r. onProgress ''checkout'' (''Checking out branch '' @ name) name cb r s')
         (cb \<lparr>kind = ''checkout'', title = ''Checking out branch '' @ name, description = None,
              value = 0, targetBranch = name\<rparr> s)
         (parseStream CheckoutProgressParser (stderr process))
   \<and> callerState (checkoutBranch repositoryPath name options (Some recordEvent) process [])
     = \<lparr>kind = ''checkout'', title = ''Checking out branch '' @ name, description = None,
         value = 0, targetBranch = name\<rparr>
       # eventsOf ''checkout'' (''Checking out branch '' @ name) name
           (parseStream CheckoutProgressParser (stderr process))
   \<and> value (hd (callerState
        (checkoutBranch repositoryPath name options (Some recordEvent) process []))) = 0
   \<and> description (hd (callerState
        (checkoutBranch repositoryPath name options (Some recordEvent) process []))) = None
   \<and> list_all (\<lambda>e. description e \<noteq> None)
        (tl (callerState
          (checkoutBranch repositoryPath name options (Some recordEvent) process [])))"
  unfolding checkoutBranch_delivered using eventsOf_description checkoutBranch_callerState
  by simp

lemma eventsOf_length: "length (eventsOf k t b rs) = length (filter isProgress rs)"
  by (induction k t b rs rule: eventsOf.induct) simp_all

lemma eventsOf_records:
  "map (\<lambda>e. Progress (the (description e)) (value e)) (eventsOf k t b rs) = filter isProgress rs"
  by (induction k t b rs rule: eventsOf.induct) simp_all



lemma parseStream_two_lines:
  "parseStream CheckoutProgressParser
     [''Checking out files: 10% (1/10)'' @ [CHR 0x0A], ''Checking out files: 100% (10/10)'' @ [CHR 0x0A]]
   = [Progress ''Checking out files: 10% (1/10)'' (1 / 10),
      Progress ''Checking out files: 100% (10/10)'' 1]"
  by code_simp

text \<open>
  C2. For every sequence of records, the adapter invokes the caller's callback once for
  each record of kind progress, in the order of the records, and not at all for a record
  of kind unknown: read back as records, the events delivered are the progress records
  of the sequence. Attached to a process, it delivers the events of the records that the
  parser makes of the process's output. Two lines of 10% and 100% give three invocations
  in all, with the values 0, 0.1 and 1.
\<close>

theorem adapter_once_per_progress_record:
  "map (\<lambda>e. Progress (the (description e)) (value e))
       (foldl (\<lambda>s' r. onProgress k t b recordEvent r s') [] rs) = filter isProgress rs
   \<and> length (foldl (\<lambda>s' r. onProgress k t b recordEvent r s') [] rs) = length (filter isProgress rs)
   \<and> progressProcessCallback CheckoutProgressParser (onProgress k t b recordEvent) process seen
       = seen @ eventsOf k t b (parseStream CheckoutProgressParser (stderr process))
   \<and> map value (callerState (checkoutBranch ''/repo'' ''main'' \<lparr>processCallback = None\<rparr>
         (Some recordEvent)
         \<lparr>stderr = [''Checking out files: 10% (1/10)'' @ [CHR 0x0A],
                     ''Checking out files: 100% (10/10)'' @ [CHR 0x0A]]\<rparr> []))
       = [0, 1 / 10, 1]"
proof -
  have "map (\<lambda>e. Progress (the (description e)) (value e))
          (foldl (\<lambda>s' r. onProgress k t b recordEvent r s') [] rs) = filter isProgress rs"
    by (simp add: foldl_onProgress_recordEvent eventsOf_records)
  moreover have "length (foldl (\<lambda>s' r. onProgress k t b recordEvent r s') [] rs)
      = length (filter isProgress rs)"
    by (simp add: foldl_onProgress_recordEvent eventsOf_length)
  moreover have "progressProcessCallback CheckoutProgressParser (onProgress k t b recordEvent) process seen
       = seen @ eventsOf k t b (parseStream CheckoutProgressParser (stderr process))"
    by (simp add: progressProcessCallback_def foldl_onProgress_recordEvent)
  moreover have "map value (callerState (checkoutBranch ''/repo'' ''main'' \<lparr>processCallback = None\<rparr>
         (Some recordEvent)
         \<lparr>stderr = [''Checking out files: 10% (1/10)'' @ [CHR 0x0A],
                     ''Checking out files: 100% (10/10)'' @ [CHR 0x0A]]\<rparr> []))
       = [0, 1 / 10, 1]"
    unfolding checkoutBranch_delivered using parseStream_two_lines by simp
  ultimately show ?thesis by blast
qed





section \<open>The file helpers stop at the first failure\<close>

lemma forEach_append:
  "forEach body (xs @ ys) fs =
     (case forEach body xs fs of (Some e, fs') \<Rightarrow> (Some e, fs') | (None, fs') \<Rightarrow> forEach body ys fs')"
  by (induction xs arbitrary: fs) (auto split: prod.splits option.splits)

lemma forEach_stops:
  assumes "forEach body xs fs = (None, fs1)" and "body x fs1 = (Some e, fs2)"
  shows "forEach body (xs @ x # ys) fs = (Some e, fs2)"
  using assms by (simp add: forEach_append)

lemma returning_Inr: "(returning r out = (Inr ps, fs1)) = (out = (None, fs1) \<and> ps = r)"
  by (auto simp: returning_def split: prod.splits option.splits)

lemma returning_Some: "returning r (Some e, fs1) = (Inl e, fs1)"
  by (simp add: returning_def)

lemma removeBody_fails:
  "\<not> isRegularFile fs p \<Longrightarrow> \<exists>e. removeBody p fs = (Some e, fs)"
  by (auto simp: removeBody_def isRegularFile_def existsSync_def statSync_def
      split: option.splits Node.splits)

lemma removeBody_ok:
  "removeBody p fs = (None, fs') \<Longrightarrow> isRegularFile fs p \<and> fs' = fs(p := None)"
  by (auto simp: removeBody_def isRegularFile_def existsSync_def statSync_def unlinkSync_def
      split: option.splits Node.splits if_splits sum.splits)

lemma forEach_removeBody:
  "forEach removeBody ps fs = (None, fs') \<Longrightarrow>
     list_all (isRegularFile fs) ps \<and> (\<forall>q. fs' q = (if q \<in> set ps then None else fs q))"
proof (induction ps arbitrary: fs)
  case Nil
  then show ?case by simp
next
  case (Cons p ps)
  from Cons.prems obtain fs2 where step: "removeBody p fs = (None, fs2)"
    and rest: "forEach removeBody ps fs2 = (None, fs')"
    by (auto split: prod.splits option.splits)
  from removeBody_ok [OF step] have p: "isRegularFile fs p" and fs2: "fs2 = fs(p := None)"
    by simp_all
  from Cons.IH [OF rest] have a: "list_all (isRegularFile fs2) ps"
    and b: "\<forall>q. fs' q = (if q \<in> set ps then None else fs2 q)" by simp_all
  have "list_all (isRegularFile fs) ps"
    using a by (auto simp: list_all_iff fs2 isRegularFile_def split: if_splits)
  moreover have "\<forall>q. fs' q = (if q \<in> set (p # ps) then None else fs q)"
    using b by (simp add: fs2)
  ultimately show ?case using p by simp
qed

lemma addBody_fails:
  "existsSync fs (path f) \<Longrightarrow> \<exists>e. addBody f fs = (Some e, fs)"
  by (simp add: addBody_def)

lemma modifyBody_fails:
  "\<not> isRegularFile fs (path f) \<Longrightarrow> \<exists>e. modifyBody f fs = (Some e, fs)"
  by (auto simp: modifyBody_def isRegularFile_def existsSync_def statSync_def
      split: option.splits Node.splits)

lemma renameBody_fails:
  "\<not> isRegularFile fs (oldPath f) \<or> existsSync fs (newPath f) \<Longrightarrow>
     \<exists>e. renameBody f fs = (Some e, fs)"
  by (auto simp: renameBody_def isRegularFile_def existsSync_def statSync_def
      split: option.splits Node.splits)

lemma not_atomic:
  assumes "returning r (forEach body (map g before) fs) = (Inr ps, fs1)"
    and "\<exists>e. body (g f) fs1 = (Some e, fs1)"
  shows "\<exists>e. returning r' (forEach body (map g (before @ f # rest)) fs) = (Inl e, fs1)"
proof -
  from assms(1) have pre: "forEach body (map g before) fs = (None, fs1)"
    by (simp add: returning_Inr)
  from assms(2) obtain e where "body (g f) fs1 = (Some e, fs1)" ..
  with pre have "forEach body (map g before @ g f # map g rest) fs = (Some e, fs1)"
    by (rule forEach_stops)
  then show ?thesis by (simp add: returning_Some)
qed

text \<open>
  C10. The helpers are not atomic. When \<^verbatim>\<open>remove\<close> (and likewise \<^verbatim>\<open>add\<close>,
  \<^verbatim>\<open>modify\<close>, \<^verbatim>\<open>rename\<close>) is given a list whose entries before the k-th
  succeed and whose k-th entry fails its precondition check (for \<^verbatim>\<open>remove\<close> and
  \<^verbatim>\<open>modify\<close>: the path is missing or is a directory; for \<^verbatim>\<open>add\<close>: the path
  exists; for \<^verbatim>\<open>rename\<close>: the old path is missing or a directory, or the new path
  exists), it throws, and the file system is left exactly as the entries before the k-th
  made it: nothing is rolled back. On success \<^verbatim>\<open>remove\<close> returns the joined paths of
  all the entries, each of which was a regular file before and is gone afterwards.
\<close>

theorem helpers_not_atomic:
  "(remove join repositoryPath (Many before) fs = (Inr ps, fs1)
      \<and> \<not> isRegularFile fs1 (join repositoryPath f)
     \<longrightarrow> (\<exists>e. remove join repositoryPath (Many (before @ f # rest)) fs = (Inl e, fs1)))
   \<and> (add join repositoryPath (Many beforeA) fsA = (Inr psA, fsA1)
      \<and> existsSync fsA1 (join repositoryPath (path fA))
     \<longrightarrow> (\<exists>e. add join repositoryPath (Many (beforeA @ fA # restA)) fsA = (Inl e, fsA1)))
   \<and> (modify join repositoryPath (Many beforeM) fsM = (Inr psM, fsM1)
      \<and> \<not> isRegularFile fsM1 (join repositoryPath (path fM))
     \<longrightarrow> (\<exists>e. modify join repositoryPath (Many (beforeM @ fM # restM)) fsM = (Inl e, fsM1)))
   \<and> (rename join repositoryPath (Many beforeR) fsR = (Inr psR, fsR1)
      \<and> (\<not> isRegularFile fsR1 (join repositoryPath (oldPath fR))
          \<or> existsSync fsR1 (join repositoryPath (newPath fR)))
     \<longrightarrow> (\<exists>e. rename join repositoryPath (Many (beforeR @ fR # restR)) fsR = (Inl e, fsR1)))
   \<and> (remove join repositoryPath filesToDelete fsD = (Inr psD, fsD1)
     \<longrightarrow> psD = map (join repositoryPath) (toArray filesToDelete)
         \<and> list_all (isRegularFile fsD) psD
         \<and> (\<forall>q. fsD1 q = (if q \<in> set psD then None else fsD q)))"
proof -
  have rm: "\<exists>e. remove join repositoryPath (Many (before @ f # rest)) fs = (Inl e, fs1)"
    if "remove join repositoryPath (Many before) fs = (Inr ps, fs1)"
      and "\<not> isRegularFile fs1 (join repositoryPath f)"
    using that unfolding remove_def Let_def toArray.simps
    by (intro not_atomic [where g = "join repositoryPath"]) (auto intro: removeBody_fails)
  have ad: "\<exists>e. add join repositoryPath (Many (beforeA @ fA # restA)) fsA = (Inl e, fsA1)"
    if "add join repositoryPath (Many beforeA) fsA = (Inr psA, fsA1)"
      and "existsSync fsA1 (join repositoryPath (path fA))"
    using that unfolding add_def Let_def toArray.simps
    by (intro not_atomic) (auto intro!: addBody_fails)
  have md: "\<exists>e. modify join repositoryPath (Many (beforeM @ fM # restM)) fsM = (Inl e, fsM1)"
    if "modify join repositoryPath (Many beforeM) fsM = (Inr psM, fsM1)"
      and "\<not> isRegularFile fsM1 (join repositoryPath (path fM))"
    using that unfolding modify_def Let_def toArray.simps
    by (intro not_atomic) (auto intro!: modifyBody_fails)
  have rn: "\<exists>e. rename join repositoryPath (Many (beforeR @ fR # restR)) fsR = (Inl e, fsR1)"
    if "rename join repositoryPath (Many beforeR) fsR = (Inr psR, fsR1)"
      and "\<not> isRegularFile fsR1 (join repositoryPath (oldPath fR))
          \<or> existsSync fsR1 (join repositoryPath (newPath fR))"
    using that unfolding rename_def Let_def toArray.simps
    by (intro not_atomic) (auto intro!: renameBody_fails)
  have ok: "psD = map (join repositoryPath) (toArray filesToDelete)
         \<and> list_all (isRegularFile fsD) psD
         \<and> (\<forall>q. fsD1 q = (if q \<in> set psD then None else fsD q))"
    if "remove join repositoryPath filesToDelete fsD = (Inr psD, fsD1)"
    using that forEach_removeBody [of psD fsD fsD1]
    by (simp add: remove_def Let_def returning_Inr)
  from rm ad md rn ok show ?thesis by blast
qed


lemmas helper_defs = remove_def add_def modify_def rename_def removeBody_def addBody_def
  modifyBody_def renameBody_def returning_def existsSync_def statSync_def unlinkSync_def
  writeFileSync_def readFileSync_def renameSync_def isRegularFile_def testJoin_def testFs_def
  Let_def

theorem helpers_not_atomic_witness:
  "(\<exists>e. remove testJoin ''/r'' (Many [''A.txt'', ''missing'', ''B.txt'']) testFs
         = (Inl e, testFs(''/r/A.txt'' := None)))
   \<and> (\<exists>e. add testJoin ''/r''
              (Many [\<lparr>path = ''C.txt'', data = None\<rparr>, \<lparr>path = ''A.txt'', data = Some ''x''\<rparr>,
                     \<lparr>path = ''D.txt'', data = Some ''d''\<rparr>]) testFs
         = (Inl e, testFs(''/r/C.txt'' \<mapsto> File [])))
   \<and> (\<exists>e. modify testJoin ''/r''
              (Many [\<lparr>path = ''A.txt'', data = ''x''\<rparr>, \<lparr>path = ''folder'', data = ''y''\<rparr>,
                     \<lparr>path = ''B.txt'', data = ''z''\<rparr>]) testFs
         = (Inl e, testFs(''/r/A.txt'' \<mapsto> File ''x'')))
   \<and> (\<exists>e. rename testJoin ''/r''
              (Many [\<lparr>oldPath = ''A.txt'', newPath = ''C.txt''\<rparr>,
                     \<lparr>oldPath = ''B.txt'', newPath = ''folder''\<rparr>,
                     \<lparr>oldPath = ''B.txt'', newPath = ''D.txt''\<rparr>]) testFs
         = (Inl e, (testFs(''/r/A.txt'' := None))(''/r/C.txt'' \<mapsto> File ''A'')))
   \<and> remove testJoin ''/r'' (Many [''A.txt'', ''B.txt'']) testFs
       = (Inr [''/r/A.txt'', ''/r/B.txt''], (testFs(''/r/A.txt'' := None))(''/r/B.txt'' := None))
   \<and> list_all (isRegularFile testFs) [''/r/A.txt'', ''/r/B.txt'']"
proof -
  have r1: "remove testJoin ''/r'' (Many [''A.txt'']) testFs
      = (Inr [''/r/A.txt''], testFs(''/r/A.txt'' := None))"
    by (simp add: helper_defs)
  have r2: "\<not> isRegularFile (testFs(''/r/A.txt'' := None)) (testJoin ''/r'' ''missing'')"
    by (simp add: helper_defs)
  have a1: "add testJoin ''/r'' (Many [\<lparr>path = ''C.txt'', data = None\<rparr>]) testFs
      = (Inr [''/r/C.txt''], testFs(''/r/C.txt'' \<mapsto> File []))"
    by (simp add: helper_defs)
  have a2: "existsSync (testFs(''/r/C.txt'' \<mapsto> File []))
      (testJoin ''/r'' (path \<lparr>path = ''A.txt'', data = Some ''x''\<rparr>))"
    by (simp add: helper_defs)
  have m1: "modify testJoin ''/r'' (Many [\<lparr>path = ''A.txt'', data = ''x''\<rparr>]) testFs
      = (Inr [''/r/A.txt''], testFs(''/r/A.txt'' \<mapsto> File ''x''))"
    by (simp add: helper_defs)
  have m2: "\<not> isRegularFile (testFs(''/r/A.txt'' \<mapsto> File ''x''))
      (testJoin ''/r'' (path \<lparr>path = ''folder'', data = ''y''\<rparr>))"
    by (simp add: helper_defs)
  have n1: "rename testJoin ''/r'' (Many [\<lparr>oldPath = ''A.txt'', newPath = ''C.txt''\<rparr>]) testFs
      = (Inr [''/r/A.txt'', ''/r/C.txt''],
         (testFs(''/r/A.txt'' := None))(''/r/C.txt'' \<mapsto> File ''A''))"
    by (simp add: helper_defs)
  have n2: "\<not> isRegularFile ((testFs(''/r/A.txt'' := None))(''/r/C.txt'' \<mapsto> File ''A''))
        (testJoin ''/r'' (oldPath \<lparr>oldPath = ''B.txt'', newPath = ''folder''\<rparr>))
      \<or> existsSync ((testFs(''/r/A.txt'' := None))(''/r/C.txt'' \<mapsto> File ''A''))
        (testJoin ''/r'' (newPath \<lparr>oldPath = ''B.txt'', newPath = ''folder''\<rparr>))"
    by (simp add: helper_defs)
  have d1: "remove testJoin ''/r'' (Many [''A.txt'', ''B.txt'']) testFs
       = (Inr [''/r/A.txt'', ''/r/B.txt''], (testFs(''/r/A.txt'' := None))(''/r/B.txt'' := None))"
    by (simp add: helper_defs)
  note t = helpers_not_atomic [of testJoin "''/r''" "[''A.txt'']" testFs "[''/r/A.txt'']"
      "testFs(''/r/A.txt'' := None)" "''missing''" "[''B.txt'']"
      "[\<lparr>path = ''C.txt'', data = None\<rparr>]" testFs "[''/r/C.txt'']"
      "testFs(''/r/C.txt'' \<mapsto> File [])" "\<lparr>path = ''A.txt'', data = Some ''x''\<rparr>"
      "[\<lparr>path = ''D.txt'', data = Some ''d''\<rparr>]"
      "[\<lparr>path = ''A.txt'', data = ''x''\<rparr>]" testFs "[''/r/A.txt'']"
      "testFs(''/r/A.txt'' \<mapsto> File ''x'')" "\<lparr>path = ''folder'', data = ''y''\<rparr>"
      "[\<lparr>path = ''B.txt'', data = ''z''\<rparr>]"
      "[\<lparr>oldPath = ''A.txt'', newPath = ''C.txt''\<rparr>]" testFs "[''/r/A.txt'', ''/r/C.txt'']"
      "(testFs(''/r/A.txt'' := None))(''/r/C.txt'' \<mapsto> File ''A'')"
      "\<lparr>oldPath = ''B.txt'', newPath = ''folder''\<rparr>"
      "[\<lparr>oldPath = ''B.txt'', newPath = ''D.txt''\<rparr>]"
      "Many [''A.txt'', ''B.txt'']" testFs "[''/r/A.txt'', ''/r/B.txt'']"
      "(testFs(''/r/A.txt'' := None))(''/r/B.txt'' := None)"]
  from t r1 r2 have c1: "\<exists>e. remove testJoin ''/r'' (Many ([''A.txt''] @ ''missing'' # [''B.txt''])) testFs
         = (Inl e, testFs(''/r/A.txt'' := None))" by blast
  from t a1 a2 have c2: "\<exists>e. add testJoin ''/r''
              (Many ([\<lparr>path = ''C.txt'', data = None\<rparr>] @ \<lparr>path = ''A.txt'', data = Some ''x''\<rparr> #
                     [\<lparr>path = ''D.txt'', data = Some ''d''\<rparr>])) testFs
         = (Inl e, testFs(''/r/C.txt'' \<mapsto> File []))" by blast
  from t m1 m2 have c3: "\<exists>e. modify testJoin ''/r''
              (Many ([\<lparr>path = ''A.txt'', data = ''x''\<rparr>] @ \<lparr>path = ''folder'', data = ''y''\<rparr> #
                     [\<lparr>path = ''B.txt'', data = ''z''\<rparr>])) testFs
         = (Inl e, testFs(''/r/A.txt'' \<mapsto> File ''x''))" by blast
  from t n1 n2 have c4: "\<exists>e. rename testJoin ''/r''
              (Many ([\<lparr>oldPath = ''A.txt'', newPath = ''C.txt''\<rparr>] @
                     \<lparr>oldPath = ''B.txt'', newPath = ''folder''\<rparr> #
                     [\<lparr>oldPath = ''B.txt'', newPath = ''D.txt''\<rparr>])) testFs
         = (Inl e, (testFs(''/r/A.txt'' := None))(''/r/C.txt'' \<mapsto> File ''A''))" by blast
  from t d1 have c5: "list_all (isRegularFile testFs) [''/r/A.txt'', ''/r/B.txt'']" by blast
  from c1 c2 c3 c4 c5 d1 show ?thesis by simp
qed

end
